theory Spec2Isabelle
  imports Complex_Main
begin

section \<open>Python values and errors\<close>

text \<open>
  The two scripts compute with Python floats (IEEE-754 binary64), Python integers
  (unbounded, modelled as \<open>int\<close>) and NumPy arrays. An exception raised by an
  operation is a value \<open>Inl e\<close> of the result type; a normal result is \<open>Inr r\<close>.
\<close>

datatype error = ValueError | ZeroDivisionError | OverflowError | IndexError | MemoryError

subsection \<open>Binary64 floats\<close>

text \<open>
  A finite float is \<open>Finite m e\<close>, the number \<open>m * 2 ^ e\<close>, kept in lowest terms
  (\<open>m\<close> odd, or \<open>Finite 0 0\<close> for \<open>+0.0\<close>); \<open>NegZero\<close> is \<open>-0.0\<close>. Arithmetic
  computes the exact result and rounds it to the nearest representable value, ties to
  even, with gradual underflow and overflow to infinity. One \<open>NaN\<close> stands for all.
\<close>

datatype f64 = Finite (mant: int) (expo: int) | NegZero | PosInf | NegInf | NaN

function bit_length :: "int \<Rightarrow> int" where
  "bit_length n = (if n \<le> 0 then 0 else 1 + bit_length (n div 2))"
  by pat_completeness auto
termination
  by (relation "measure nat") auto

declare bit_length.simps [simp del]

function strip_zeros :: "int \<Rightarrow> int \<Rightarrow> int \<times> int" where
  "strip_zeros n p = (if n \<noteq> 0 \<and> even n then strip_zeros (n div 2) (p + 1) else (n, p))"
  by pat_completeness auto
termination
  by (relation "measure (\<lambda>(n, p). nat \<bar>n\<bar>)") auto

declare strip_zeros.simps [simp del]

definition round_nearest_even :: "int \<Rightarrow> int \<Rightarrow> int" where
  \<comment> \<open>the integer nearest to \<open>num / den\<close> (\<open>den > 0\<close>), ties to the even one\<close>
  "round_nearest_even num den =
     (let q = num div den; r2 = 2 * (num mod den)
      in if r2 < den then q
         else if den < r2 then q + 1
         else if even q then q else q + 1)"

definition ilog2_ratio :: "int \<Rightarrow> int \<Rightarrow> int" where
  \<comment> \<open>\<open>\<lfloor>log\<^sub>2 (num / den)\<rfloor>\<close> for positive \<open>num\<close>, \<open>den\<close>\<close>
  "ilog2_ratio num den =
     (let k = bit_length num - bit_length den
      in if (if 0 \<le> k then den * 2 ^ nat k \<le> num else den \<le> num * 2 ^ nat (- k))
         then k else k - 1)"

definition round_ratio :: "bool \<Rightarrow> int \<Rightarrow> int \<Rightarrow> f64" where
  \<comment> \<open>the float nearest to \<open>\<plusminus> num / den\<close> (\<open>num, den > 0\<close>; \<open>neg\<close> is the sign):
      53 significant bits, least exponent \<open>-1074\<close>, infinity from \<open>2^1024 - 2^970\<close> on\<close>
  "round_ratio neg num den =
     (if (2 ^ 1024 - 2 ^ 970) * den \<le> num then (if neg then NegInf else PosInf)
      else
        let p = max (ilog2_ratio num den - 52) (- 1074);
            n = (if 0 \<le> p then round_nearest_even num (den * 2 ^ nat p)
                 else round_nearest_even (num * 2 ^ nat (- p)) den)
        in if n = 0 then (if neg then NegZero else Finite 0 0)
           else case strip_zeros n p of (m, e) \<Rightarrow> Finite (if neg then - m else m) e)"

definition round_scaled :: "int \<Rightarrow> int \<Rightarrow> f64" where
  \<comment> \<open>the float nearest to \<open>m * 2 ^ e\<close>, \<open>m \<noteq> 0\<close>\<close>
  "round_scaled m e =
     (if 0 \<le> e then round_ratio (m < 0) (\<bar>m\<bar> * 2 ^ nat e) 1
      else round_ratio (m < 0) \<bar>m\<bar> (2 ^ nat (- e)))"

fun is_nan :: "f64 \<Rightarrow> bool" where
  "is_nan NaN = True"
| "is_nan _ = False"

fun is_inf :: "f64 \<Rightarrow> bool" where
  "is_inf PosInf = True"
| "is_inf NegInf = True"
| "is_inf _ = False"

fun is_zero :: "f64 \<Rightarrow> bool" where
  "is_zero (Finite m e) = (m = 0)"
| "is_zero NegZero = True"
| "is_zero _ = False"

fun is_finite :: "f64 \<Rightarrow> bool" where
  "is_finite (Finite m e) = True"
| "is_finite NegZero = True"
| "is_finite _ = False"

fun sign_bit :: "f64 \<Rightarrow> bool" where
  "sign_bit (Finite m e) = (m < 0)"
| "sign_bit NegZero = True"
| "sign_bit NegInf = True"
| "sign_bit _ = False"

fun is_f64 :: "f64 \<Rightarrow> bool" where
  \<comment> \<open>the encodings that are binary64 values\<close>
  "is_f64 (Finite m e) =
     (if m = 0 then e = 0
      else odd m \<and> \<bar>m\<bar> < 2 ^ 53 \<and> - 1074 \<le> e \<and> bit_length \<bar>m\<bar> + e \<le> 1024)"
| "is_f64 _ = True"

fun f64_neg :: "f64 \<Rightarrow> f64" where
  "f64_neg (Finite m e) = (if m = 0 then NegZero else Finite (- m) e)"
| "f64_neg NegZero = Finite 0 0"
| "f64_neg PosInf = NegInf"
| "f64_neg NegInf = PosInf"
| "f64_neg NaN = NaN"

fun f64_abs :: "f64 \<Rightarrow> f64" where
  "f64_abs (Finite m e) = Finite \<bar>m\<bar> e"
| "f64_abs NegZero = Finite 0 0"
| "f64_abs PosInf = PosInf"
| "f64_abs NegInf = PosInf"
| "f64_abs NaN = NaN"

definition f64_mul :: "f64 \<Rightarrow> f64 \<Rightarrow> f64" where
  "f64_mul a b =
     (if is_nan a \<or> is_nan b then NaN
      else if is_inf a \<or> is_inf b then
        (if is_zero a \<or> is_zero b then NaN
         else if sign_bit a = sign_bit b then PosInf else NegInf)
      else if is_zero a \<or> is_zero b then
        (if sign_bit a = sign_bit b then Finite 0 0 else NegZero)
      else round_scaled (mant a * mant b) (expo a + expo b))"

definition f64_add :: "f64 \<Rightarrow> f64 \<Rightarrow> f64" where
  "f64_add a b =
     (if is_nan a \<or> is_nan b then NaN
      else if is_inf a then (if is_inf b \<and> sign_bit a \<noteq> sign_bit b then NaN else a)
      else if is_inf b then b
      else if is_zero a \<and> is_zero b then
        (if sign_bit a \<and> sign_bit b then NegZero else Finite 0 0)
      else if is_zero a then b
      else if is_zero b then a
      else
        let e = min (expo a) (expo b);
            s = mant a * 2 ^ nat (expo a - e) + mant b * 2 ^ nat (expo b - e)
        in if s = 0 then Finite 0 0 else round_scaled s e)"

definition f64_sub :: "f64 \<Rightarrow> f64 \<Rightarrow> f64" where
  "f64_sub a b = f64_add a (f64_neg b)"

definition float_eq :: "f64 \<Rightarrow> f64 \<Rightarrow> bool" where
  \<comment> \<open>Python's \<open>==\<close> on floats: a NaN equals nothing, the two zeros are equal\<close>
  "float_eq a b =
     (if is_nan a \<or> is_nan b then False
      else if is_zero a \<and> is_zero b then True
      else a = b)"

instantiation f64 :: "{zero, one, plus, minus, uminus, times}"
begin

definition zero_f64 :: f64 where "zero_f64 = Finite 0 0"
definition one_f64 :: f64 where "one_f64 = Finite 1 0"
definition plus_f64 :: "f64 \<Rightarrow> f64 \<Rightarrow> f64" where "plus_f64 = f64_add"
definition minus_f64 :: "f64 \<Rightarrow> f64 \<Rightarrow> f64" where "minus_f64 = f64_sub"
definition uminus_f64 :: "f64 \<Rightarrow> f64" where "uminus_f64 = f64_neg"
definition times_f64 :: "f64 \<Rightarrow> f64 \<Rightarrow> f64" where "times_f64 = f64_mul"

instance ..

end

subsection \<open>Integer operations that can raise\<close>

definition py_mod :: "int \<Rightarrow> int \<Rightarrow> error + int" where
  \<comment> \<open>\<open>a % b\<close>: the result has the sign of \<open>b\<close>, as HOL's \<open>mod\<close>\<close>
  "py_mod a b = (if b = 0 then Inl ZeroDivisionError else Inr (a mod b))"

definition py_truediv :: "int \<Rightarrow> int \<Rightarrow> error + f64" where
  \<comment> \<open>\<open>a / b\<close> on integers: the correctly rounded quotient as a float\<close>
  "py_truediv a b =
     (if b = 0 then Inl ZeroDivisionError
      else if a = 0 then Inr (if b < 0 then NegZero else Finite 0 0)
      else case round_ratio ((a < 0) \<noteq> (b < 0)) \<bar>a\<bar> \<bar>b\<bar> of
             PosInf \<Rightarrow> Inl OverflowError
           | NegInf \<Rightarrow> Inl OverflowError
           | f \<Rightarrow> Inr f)"

fun py_int :: "f64 \<Rightarrow> error + int" where
  \<comment> \<open>\<open>int(f)\<close>: truncation towards zero\<close>
  "py_int (Finite m e) =
     Inr (if 0 \<le> e then m * 2 ^ nat e
          else if 0 \<le> m then m div 2 ^ nat (- e)
          else - ((- m) div 2 ^ nat (- e)))"
| "py_int NegZero = Inr 0"
| "py_int PosInf = Inl OverflowError"
| "py_int NegInf = Inl OverflowError"
| "py_int NaN = Inl ValueError"

definition py_range :: "int \<Rightarrow> int list" where
  \<comment> \<open>\<open>range(n)\<close>: \<open>0, 1, ..., n - 1\<close>, empty when \<open>n \<le> 0\<close>\<close>
  "py_range n = map int [0..<nat n]"

subsection \<open>NumPy arrays\<close>

text \<open>
  A one-dimensional array is the list of its cells. A cell holds its current content and
  counts the stores made to it since the array was allocated. \<open>np.empty\<close> leaves the
  memory as it finds it: the content of a fresh cell is whatever \<open>junk\<close> the allocator
  hands out, and its store count is \<open>0\<close>.

  \<open>np.empty\<close> can fail. A negative length raises ValueError. So does a length that
  does not fit: from \<open>2^63\<close> on it is no dimension, and from \<open>2^60\<close> on the array
  of 8-byte floats is larger than the largest size (64-bit platform). Below that the
  allocator decides: \<open>room\<close> is the number of cells it can provide at the call, and
  a longer array raises MemoryError.
\<close>

record 'a cell =
  content :: 'a
  stores :: nat

type_synonym 'a ndarray = "'a cell list"

definition np_empty :: "int \<Rightarrow> (nat \<Rightarrow> 'a) \<Rightarrow> int \<Rightarrow> error + 'a ndarray" where
  \<comment> \<open>\<open>np.empty(n, dtype=float)\<close>\<close>
  "np_empty room junk n =
     (if n < 0 \<or> 2 ^ 60 \<le> n then Inl ValueError
      else if room < n then Inl MemoryError
      else Inr (map (\<lambda>k. \<lparr>content = junk k, stores = 0\<rparr>) [0..<nat n]))"

definition np_setitem :: "'a ndarray \<Rightarrow> int \<Rightarrow> 'a \<Rightarrow> error + 'a ndarray" where
  \<comment> \<open>\<open>arr[i] = x\<close>; a negative index counts from the end, out of bounds raises\<close>
  "np_setitem arr i x =
     (let n = int (length arr); j = (if i < 0 then n + i else i)
      in if 0 \<le> j \<and> j < n
         then Inr (arr[nat j := \<lparr>content = x, stores = Suc (stores (arr ! nat j))\<rparr>])
         else Inl IndexError)"

definition np_values :: "'a ndarray \<Rightarrow> 'a list" where
  "np_values arr = map content arr"

section \<open>make\_phase\_portrait\_emergent\_time.py\<close>

subsection \<open>integrate\_vdp\<close>

text \<open>
  What \<open>print\<close> writes: \<open>Integrating pct\<close> for the line
  \<open>f"\rIntegrating: {pct:3d}% "\<close>, \<open>Done\<close> for \<open>"\nDone."\<close>.
\<close>

datatype event = Integrating int | Done

record 'a vdp_state =
  var_x :: 'a
  var_v :: 'a
  var_xs :: "'a ndarray"
  var_vs :: "'a ndarray"
  stdout :: "event list"

definition vdp_accel :: "'a::{one, plus, minus, times} \<Rightarrow> 'a \<Rightarrow> 'a \<Rightarrow> 'a" where
  \<comment> \<open>line 44: \<open>a = mu * (1.0 - x * x) * v - x\<close>\<close>
  "vdp_accel mu x v = mu * (1 - x * x) * v - x"

definition progress_pct :: "int \<Rightarrow> int \<Rightarrow> error + int" where
  \<comment> \<open>line 51: \<open>pct = int(100 * (i + 1) / steps)\<close>\<close>
  "progress_pct i steps =
     (case py_truediv (100 * (i + 1)) steps of
        Inl e \<Rightarrow> Inl e
      | Inr f \<Rightarrow> py_int f)"

definition vdp_body ::
  "'a::{one, plus, minus, times} \<Rightarrow> 'a \<Rightarrow> int \<Rightarrow> int \<Rightarrow> bool \<Rightarrow> int \<Rightarrow> 'a vdp_state
     \<Rightarrow> error + 'a vdp_state" where
  \<comment> \<open>lines 44-52, one iteration of the loop with index \<open>i\<close>\<close>
  "vdp_body mu dt steps checkpoint show_progress i s =
     (let a = vdp_accel mu (var_x s) (var_v s);
          v = var_v s + a * dt;
          x = var_x s + v * dt
      in case np_setitem (var_xs s) i x of
           Inl e \<Rightarrow> Inl e
         | Inr xs \<Rightarrow>
        (case np_setitem (var_vs s) i v of
           Inl e \<Rightarrow> Inl e
         | Inr vs \<Rightarrow>
        (let s' = s\<lparr>var_x := x, var_v := v, var_xs := xs, var_vs := vs\<rparr>
         in if show_progress then
              (case py_mod i checkpoint of
                 Inl e \<Rightarrow> Inl e
               | Inr r \<Rightarrow>
                   if r = 0 \<or> i = steps - 1 then
                     (case progress_pct i steps of
                        Inl e \<Rightarrow> Inl e
                      | Inr pct \<Rightarrow> Inr (s'\<lparr>stdout := stdout s' @ [Integrating pct]\<rparr>))
                   else Inr s')
            else Inr s')))"

fun vdp_loop ::
  "'a::{one, plus, minus, times} \<Rightarrow> 'a \<Rightarrow> int \<Rightarrow> int \<Rightarrow> bool \<Rightarrow> int list \<Rightarrow> 'a vdp_state
     \<Rightarrow> error + 'a vdp_state" where
  \<comment> \<open>line 43: \<open>for i in range(steps)\<close>, over the indices still to come\<close>
  "vdp_loop mu dt steps checkpoint show_progress [] s = Inr s"
| "vdp_loop mu dt steps checkpoint show_progress (i # is) s =
     (case vdp_body mu dt steps checkpoint show_progress i s of
        Inl e \<Rightarrow> Inl e
      | Inr s' \<Rightarrow> vdp_loop mu dt steps checkpoint show_progress is s')"

definition integrate_vdp ::
  "int \<Rightarrow> int \<Rightarrow> (nat \<Rightarrow> 'a) \<Rightarrow> (nat \<Rightarrow> 'a) \<Rightarrow> 'a::{one, plus, minus, times} \<Rightarrow> 'a \<Rightarrow> int \<Rightarrow> 'a \<Rightarrow> 'a
     \<Rightarrow> bool \<Rightarrow> error + ('a ndarray \<times> 'a ndarray \<times> event list)" where
  \<comment> \<open>lines 27-57. \<open>room_xs\<close>, \<open>junk_xs\<close> and \<open>room_vs\<close>, \<open>junk_vs\<close> are what the
      two \<open>np.empty\<close> calls find: the room the allocator has and the content of the
      memory; \<open>float(x0)\<close> and \<open>float(v0)\<close> leave a float as it is. The result is the
      returned pair of arrays with what was printed.\<close>
  "integrate_vdp room_xs room_vs junk_xs junk_vs mu dt steps x0 v0 show_progress =
     (case np_empty room_xs junk_xs steps of
        Inl e \<Rightarrow> Inl e
      | Inr xs \<Rightarrow>
     (case np_empty room_vs junk_vs steps of
        Inl e \<Rightarrow> Inl e
      | Inr vs \<Rightarrow>
     (let checkpoint = max 1 (steps div 20)
      in case vdp_loop mu dt steps checkpoint show_progress (py_range steps)
                \<lparr>var_x = x0, var_v = v0, var_xs = xs, var_vs = vs, stdout = []\<rparr> of
           Inl e \<Rightarrow> Inl e
         | Inr s \<Rightarrow>
             Inr (var_xs s, var_vs s,
                  if show_progress then stdout s @ [Done] else stdout s))))"

subsection \<open>The split in main\<close>

text \<open>
  A slice bound of Python: a negative bound counts from the end, and every bound is
  clipped to the sequence, so \<open>xs[:t]\<close> and \<open>xs[t:]\<close> never raise.
\<close>

definition slice_bound :: "nat \<Rightarrow> int \<Rightarrow> nat" where
  "slice_bound n t = (if t < 0 then nat (max 0 (int n + t)) else min (nat t) n)"

definition slice_to :: "'a list \<Rightarrow> int \<Rightarrow> 'a list" where
  \<comment> \<open>\<open>xs[:t]\<close>\<close>
  "slice_to xs t = take (slice_bound (length xs) t) xs"

definition slice_from :: "'a list \<Rightarrow> int \<Rightarrow> 'a list" where
  \<comment> \<open>\<open>xs[t:]\<close>\<close>
  "slice_from xs t = drop (slice_bound (length xs) t) xs"

record 'a segments =
  transient :: int
  xs_tr :: "'a list"
  vs_tr :: "'a list"
  xs_cy :: "'a list"
  vs_cy :: "'a list"

definition split_transient :: "int \<Rightarrow> 'a list \<Rightarrow> 'a list \<Rightarrow> 'a segments" where
  \<comment> \<open>lines 91-96 of main, \<open>k\<close> being \<open>args.transient\<close>\<close>
  "split_transient k xs vs =
     (let t = max 0 (min k (int (length xs) - 1))
      in \<lparr>transient = t,
          xs_tr = slice_to xs t, vs_tr = slice_to vs t,
          xs_cy = slice_from xs t, vs_cy = slice_from vs t\<rparr>)"

section \<open>phase\_limit\_cycle.py\<close>

text \<open>
  The script is one loop over module-level variables. Its constants are parameters of the
  loop here, and \<open>script_run\<close> is the loop with the constants the script has. The
  progress bar of \<open>trange\<close> and the plot are left out.

  The script calls three library functions on floats, which are parameters: \<open>c_pow\<close>
  is \<open>pow\<close> of the C library, which Python's \<open>**\<close> on floats calls; \<open>np_pow\<close> is
  NumPy's \<open>**\<close> on its own float scalars; \<open>np_sin\<close> is \<open>np.sin\<close>. None of the
  three raises: NumPy reports an overflow or an invalid value as a warning, which is no
  exception and is not part of the model. Python's \<open>**\<close> does raise: OverflowError,
  when \<open>pow\<close> returns an infinity for a finite argument.

  \<open>np.sin\<close> returns a NumPy scalar, and arithmetic with a NumPy scalar gives one, so
  after the first iteration \<open>phi\<close> and \<open>phidot\<close> are NumPy scalars: \<open>phi**2\<close> is
  Python's \<open>**\<close> in the first iteration and NumPy's afterwards, while \<open>omega0**2\<close>
  is Python's in every iteration. The sums and products are the same float operations
  for both kinds of scalar and do not raise.
\<close>

datatype scalar = PyFloat (fval: f64) | NpFloat64 (fval: f64)

definition py_pow2 :: "(f64 \<Rightarrow> f64 \<Rightarrow> f64) \<Rightarrow> f64 \<Rightarrow> error + f64" where
  \<comment> \<open>\<open>x ** 2\<close> for a Python float: the special cases Python decides itself, then
      \<open>pow(|x|, 2.0)\<close>\<close>
  "py_pow2 c_pow x =
     (if is_nan x then Inr NaN
      else if is_inf x then Inr PosInf
      else if is_zero x then Inr (Finite 0 0)
      else if f64_abs x = Finite 1 0 then Inr (Finite 1 0)
      else let r = c_pow (f64_abs x) (Finite 1 1)
           in if is_inf r then Inl OverflowError else Inr r)"

fun scalar_pow2 ::
  "(f64 \<Rightarrow> f64 \<Rightarrow> f64) \<Rightarrow> (f64 \<Rightarrow> f64 \<Rightarrow> f64) \<Rightarrow> scalar \<Rightarrow> error + f64" where
  "scalar_pow2 c_pow np_pow (PyFloat x) = py_pow2 c_pow x"
| "scalar_pow2 c_pow np_pow (NpFloat64 x) = Inr (np_pow x (Finite 1 1))"

record script_state =
  phi :: scalar
  phidot :: f64
  phi_list :: "f64 list"

definition pendulum_accel ::
  "(f64 \<Rightarrow> f64 \<Rightarrow> f64) \<Rightarrow> (f64 \<Rightarrow> f64 \<Rightarrow> f64) \<Rightarrow> (f64 \<Rightarrow> f64) \<Rightarrow> f64 \<Rightarrow> f64 \<Rightarrow> scalar \<Rightarrow> f64
     \<Rightarrow> error + f64" where
  \<comment> \<open>line 18: \<open>phiddot = -epsilon*(phi**2 - 1)*phidot - omega0**2*np.sin(phi)\<close>,
      the operands evaluated from left to right\<close>
  "pendulum_accel c_pow np_pow np_sin epsilon omega0 p pd =
     (case scalar_pow2 c_pow np_pow p of
        Inl e \<Rightarrow> Inl e
      | Inr p2 \<Rightarrow>
     (case py_pow2 c_pow omega0 of
        Inl e \<Rightarrow> Inl e
      | Inr w2 \<Rightarrow> Inr (- epsilon * (p2 - 1) * pd - w2 * np_sin (fval p))))"

definition script_body ::
  "(f64 \<Rightarrow> f64 \<Rightarrow> f64) \<Rightarrow> (f64 \<Rightarrow> f64 \<Rightarrow> f64) \<Rightarrow> (f64 \<Rightarrow> f64) \<Rightarrow> f64 \<Rightarrow> f64 \<Rightarrow> f64
     \<Rightarrow> script_state \<Rightarrow> error + script_state" where
  \<comment> \<open>lines 18-21\<close>
  "script_body c_pow np_pow np_sin epsilon omega0 dt s =
     (case pendulum_accel c_pow np_pow np_sin epsilon omega0 (phi s) (phidot s) of
        Inl e \<Rightarrow> Inl e
      | Inr phiddot \<Rightarrow>
          let pd = phidot s + phiddot * dt;
              p = fval (phi s) + pd * dt
          in Inr \<lparr>phi = NpFloat64 p, phidot = pd, phi_list = phi_list s @ [p]\<rparr>)"

fun script_loop ::
  "(f64 \<Rightarrow> f64 \<Rightarrow> f64) \<Rightarrow> (f64 \<Rightarrow> f64 \<Rightarrow> f64) \<Rightarrow> (f64 \<Rightarrow> f64) \<Rightarrow> f64 \<Rightarrow> f64 \<Rightarrow> f64
     \<Rightarrow> int list \<Rightarrow> script_state \<Rightarrow> error + script_state" where
  \<comment> \<open>line 17: \<open>for _ in trange(steps)\<close>\<close>
  "script_loop c_pow np_pow np_sin epsilon omega0 dt [] s = Inr s"
| "script_loop c_pow np_pow np_sin epsilon omega0 dt (i # is) s =
     (case script_body c_pow np_pow np_sin epsilon omega0 dt s of
        Inl e \<Rightarrow> Inl e
      | Inr s' \<Rightarrow> script_loop c_pow np_pow np_sin epsilon omega0 dt is s')"

definition phase_limit_cycle ::
  "(f64 \<Rightarrow> f64 \<Rightarrow> f64) \<Rightarrow> (f64 \<Rightarrow> f64 \<Rightarrow> f64) \<Rightarrow> (f64 \<Rightarrow> f64) \<Rightarrow> f64 \<Rightarrow> f64 \<Rightarrow> f64 \<Rightarrow> int
     \<Rightarrow> f64 \<Rightarrow> f64 \<Rightarrow> error + script_state" where
  \<comment> \<open>lines 5-21: the variables after the loop; \<open>phi\<close> and \<open>phidot\<close> start as the
      Python floats of lines 12 and 13\<close>
  "phase_limit_cycle c_pow np_pow np_sin epsilon omega0 dt steps phi0 phidot0 =
     script_loop c_pow np_pow np_sin epsilon omega0 dt (py_range steps)
       \<lparr>phi = PyFloat phi0, phidot = phidot0, phi_list = []\<rparr>"

definition script_run ::
  "(f64 \<Rightarrow> f64 \<Rightarrow> f64) \<Rightarrow> (f64 \<Rightarrow> f64 \<Rightarrow> f64) \<Rightarrow> (f64 \<Rightarrow> f64) \<Rightarrow> error + script_state" where
  \<comment> \<open>the script as written, lines 6-13: \<open>0.3\<close>, \<open>1.0\<close>, \<open>0.01\<close>, \<open>20000\<close>,
      \<open>0.1\<close>, \<open>0.0\<close> as the floats they denote\<close>
  "script_run c_pow np_pow np_sin =
     phase_limit_cycle c_pow np_pow np_sin (Finite 5404319552844595 (- 54)) (Finite 1 0)
       (Finite 5764607523034235 (- 59)) 20000 (Finite 3602879701896397 (- 55)) (Finite 0 0)"

section \<open>The integrator of the specification\<close>

text \<open>
  The specification describes one step of the integrator in four lines: compute the
  acceleration from the state, add \<open>a * dt\<close> to the velocity, add the new velocity
  times \<open>dt\<close> to the position, record the pair. \<open>euler_step\<close> is that step on a
  pair (position, velocity) and \<open>state_after k\<close> the pair after \<open>k\<close> steps; the
  loop of integrate\_vdp is compared with them.
\<close>

definition euler_step :: "('a \<Rightarrow> 'a \<Rightarrow> 'a) \<Rightarrow> 'a::{plus, times} \<Rightarrow> 'a \<times> 'a \<Rightarrow> 'a \<times> 'a" where
  "euler_step law dt s =
     (let a = law (fst s) (snd s);
          v = snd s + a * dt;
          x = fst s + v * dt
      in (x, v))"

definition state_after ::
  "('a \<Rightarrow> 'a \<Rightarrow> 'a) \<Rightarrow> 'a::{plus, times} \<Rightarrow> 'a \<Rightarrow> 'a \<Rightarrow> nat \<Rightarrow> 'a \<times> 'a" where
  "state_after law dt x0 v0 k = (euler_step law dt ^^ k) (x0, v0)"

text \<open>What iteration \<open>i\<close> of integrate\_vdp prints.\<close>

definition progress_events :: "bool \<Rightarrow> int \<Rightarrow> int \<Rightarrow> int \<Rightarrow> event list" where
  "progress_events show_progress steps checkpoint i =
     (if show_progress \<and> (i mod checkpoint = 0 \<or> i = steps - 1)
      then [Integrating (projr (progress_pct i steps))] else [])"

text \<open>
  An array of \<open>n\<close> cells of which the first \<open>m\<close> have been stored to once, with
  the values \<open>f 0, ..., f (m - 1)\<close>, and the others are as allocated.
\<close>

definition filled :: "(nat \<Rightarrow> 'a) \<Rightarrow> (nat \<Rightarrow> 'a) \<Rightarrow> nat \<Rightarrow> nat \<Rightarrow> 'a ndarray" where
  "filled f junk m n =
     map (\<lambda>j. if j < m then \<lparr>content = f j, stores = 1\<rparr> else \<lparr>content = junk j, stores = 0\<rparr>)
       [0..<n]"

section \<open>Lemmas\<close>

subsection \<open>The loop of integrate\_vdp\<close>

lemma round_ratio_finite:
  "num < (2 ^ 1024 - 2 ^ 970) * den \<Longrightarrow> is_finite (round_ratio neg num den)"
  by (simp add: round_ratio_def Let_def split: prod.splits)

lemma py_int_finite: "is_finite f \<Longrightarrow> \<exists>k. py_int f = Inr k"
  by (cases f) simp_all

lemma progress_pct_ok:
  assumes "0 \<le> i" "i < steps"
  shows "\<exists>p. progress_pct i steps = Inr p"
proof -
  let ?a = "100 * (i + 1)"
  have pos: "0 < ?a" "0 < steps" using assms by auto
  have "?a \<le> 100 * steps" using assms by simp
  also have "\<dots> < (2 ^ 1024 - 2 ^ 970) * steps" using pos by simp
  finally have "\<bar>?a\<bar> < (2 ^ 1024 - 2 ^ 970) * \<bar>steps\<bar>" using pos by simp
  then have fin: "is_finite (round_ratio ((?a < 0) \<noteq> (steps < 0)) \<bar>?a\<bar> \<bar>steps\<bar>)"
    by (rule round_ratio_finite)
  then obtain k where k: "py_int (round_ratio ((?a < 0) \<noteq> (steps < 0)) \<bar>?a\<bar> \<bar>steps\<bar>) = Inr k"
    using py_int_finite by blast
  show ?thesis
    using pos fin k
    by (cases "round_ratio ((?a < 0) \<noteq> (steps < 0)) \<bar>?a\<bar> \<bar>steps\<bar>")
       (auto simp: progress_pct_def py_truediv_def)
qed

lemma vdp_body_in_range:
  assumes "0 \<le> i" "i < steps" "int (length (var_xs s)) = steps" "int (length (var_vs s)) = steps"
    and "checkpoint \<noteq> 0"
  shows "vdp_body mu dt steps checkpoint show_progress i s =
     (let (x, v) = euler_step (vdp_accel mu) dt (var_x s, var_v s)
      in Inr \<lparr>var_x = x, var_v = v,
               var_xs = (var_xs s)[nat i := \<lparr>content = x, stores = Suc (stores (var_xs s ! nat i))\<rparr>],
               var_vs = (var_vs s)[nat i := \<lparr>content = v, stores = Suc (stores (var_vs s ! nat i))\<rparr>],
               stdout = stdout s @ progress_events show_progress steps checkpoint i\<rparr>)"
proof -
  obtain p where p: "progress_pct i steps = Inr p"
    using progress_pct_ok [OF assms(1,2)] by blast
  show ?thesis
    using assms p
    by (cases s)
       (simp add: vdp_body_def euler_step_def np_setitem_def Let_def py_mod_def progress_events_def)
qed

lemma vdp_loop_append:
  "vdp_loop mu dt steps cp sp (is @ js) s =
     (case vdp_loop mu dt steps cp sp is s of
        Inl e \<Rightarrow> Inl e
      | Inr s' \<Rightarrow> vdp_loop mu dt steps cp sp js s')"
  by (induction "is" arbitrary: s) (auto split: sum.splits)

lemma length_filled [simp]: "length (filled f junk m n) = n"
  by (simp add: filled_def)

lemma filled_store:
  assumes "m < n"
  shows "(filled f junk m n)[m := \<lparr>content = f m, stores = Suc (stores (filled f junk m n ! m))\<rparr>]
           = filled f junk (Suc m) n"
proof (rule nth_equalityI)
  show "length ((filled f junk m n)[m := \<lparr>content = f m, stores = Suc (stores (filled f junk m n ! m))\<rparr>])
          = length (filled f junk (Suc m) n)"
    by simp
next
  fix j
  assume "j < length ((filled f junk m n)[m := \<lparr>content = f m, stores = Suc (stores (filled f junk m n ! m))\<rparr>])"
  then have j: "j < n" by simp
  show "(filled f junk m n)[m := \<lparr>content = f m, stores = Suc (stores (filled f junk m n ! m))\<rparr>] ! j
          = filled f junk (Suc m) n ! j"
    using j assms by (cases "j = m") (auto simp: filled_def nth_list_update)
qed

lemma filled_full:
  "filled f junk n n = map (\<lambda>j. \<lparr>content = f j, stores = 1\<rparr>) [0..<n]"
  by (simp add: filled_def)

lemma filled_fresh:
  "filled f junk 0 n = map (\<lambda>k. \<lparr>content = junk k, stores = 0\<rparr>) [0..<n]"
  by (simp add: filled_def)

lemma state_after_Suc:
  "state_after law dt x0 v0 (Suc k) = euler_step law dt (state_after law dt x0 v0 k)"
  by (simp add: state_after_def)

lemma vdp_loop_prefix:
  fixes mu dt x0 v0 :: "'a::{one, plus, minus, times}"
  assumes "cp \<noteq> 0"
  shows "m \<le> n \<Longrightarrow>
    vdp_loop mu dt (int n) cp sp (map int [0..<m])
      \<lparr>var_x = x0, var_v = v0, var_xs = filled fx jx 0 n, var_vs = filled fv jv 0 n, stdout = []\<rparr>
    = Inr \<lparr>var_x = fst (state_after (vdp_accel mu) dt x0 v0 m),
            var_v = snd (state_after (vdp_accel mu) dt x0 v0 m),
            var_xs = filled (\<lambda>j. fst (state_after (vdp_accel mu) dt x0 v0 (Suc j))) jx m n,
            var_vs = filled (\<lambda>j. snd (state_after (vdp_accel mu) dt x0 v0 (Suc j))) jv m n,
            stdout = concat (map (progress_events sp (int n) cp) (map int [0..<m]))\<rparr>"
proof (induction m)
  case 0
  show ?case by (simp add: state_after_def filled_def)
next
  case (Suc m)
  let ?T = "state_after (vdp_accel mu) dt x0 v0"
  let ?s = "\<lparr>var_x = fst (?T m), var_v = snd (?T m),
            var_xs = filled (\<lambda>j. fst (?T (Suc j))) jx m n,
            var_vs = filled (\<lambda>j. snd (?T (Suc j))) jv m n,
            stdout = concat (map (progress_events sp (int n) cp) (map int [0..<m]))\<rparr>"
  from Suc.prems have m: "m < n" by simp
  have run: "vdp_loop mu dt (int n) cp sp (map int [0..<m])
      \<lparr>var_x = x0, var_v = v0, var_xs = filled fx jx 0 n, var_vs = filled fv jv 0 n, stdout = []\<rparr>
      = Inr ?s"
    using Suc.IH m by simp
  have step: "vdp_body mu dt (int n) cp sp (int m) ?s =
      Inr \<lparr>var_x = fst (?T (Suc m)), var_v = snd (?T (Suc m)),
            var_xs = filled (\<lambda>j. fst (?T (Suc j))) jx (Suc m) n,
            var_vs = filled (\<lambda>j. snd (?T (Suc j))) jv (Suc m) n,
            stdout = concat (map (progress_events sp (int n) cp) (map int [0..<Suc m]))\<rparr>"
  proof -
    have "vdp_body mu dt (int n) cp sp (int m) ?s =
      (let (x, v) = euler_step (vdp_accel mu) dt (var_x ?s, var_v ?s)
       in Inr \<lparr>var_x = x, var_v = v,
               var_xs = (var_xs ?s)[nat (int m) := \<lparr>content = x, stores = Suc (stores (var_xs ?s ! nat (int m)))\<rparr>],
               var_vs = (var_vs ?s)[nat (int m) := \<lparr>content = v, stores = Suc (stores (var_vs ?s ! nat (int m)))\<rparr>],
               stdout = stdout ?s @ progress_events sp (int n) cp (int m)\<rparr>)"
      using m assms by (intro vdp_body_in_range) simp_all
    also have "\<dots> = Inr \<lparr>var_x = fst (?T (Suc m)), var_v = snd (?T (Suc m)),
            var_xs = filled (\<lambda>j. fst (?T (Suc j))) jx (Suc m) n,
            var_vs = filled (\<lambda>j. snd (?T (Suc j))) jv (Suc m) n,
            stdout = concat (map (progress_events sp (int n) cp) (map int [0..<Suc m]))\<rparr>"
      using filled_store [OF m, of "\<lambda>j. fst (?T (Suc j))" jx]
            filled_store [OF m, of "\<lambda>j. snd (?T (Suc j))" jv]
      by (simp add: state_after_Suc [of _ _ _ _ m] split_beta Let_def)
    finally show ?thesis .
  qed
  show ?case
    by (simp only: upt_Suc_append [OF le0] map_append vdp_loop_append run sum.case list.map
          vdp_loop.simps step)
qed

lemma integrate_vdp_cases:
  fixes mu dt x0 v0 :: "'a::{one, plus, minus, times}"
  shows "integrate_vdp room_xs room_vs junk_xs junk_vs mu dt steps x0 v0 show_progress =
     (if steps < 0 \<or> 2 ^ 60 \<le> steps then Inl ValueError
      else if room_xs < steps \<or> room_vs < steps then Inl MemoryError
      else Inr (map (\<lambda>j. \<lparr>content = fst (state_after (vdp_accel mu) dt x0 v0 (Suc j)), stores = 1\<rparr>)
                  [0..<nat steps],
                map (\<lambda>j. \<lparr>content = snd (state_after (vdp_accel mu) dt x0 v0 (Suc j)), stores = 1\<rparr>)
                  [0..<nat steps],
                concat (map (progress_events show_progress steps (max 1 (steps div 20)))
                          (py_range steps))
                  @ (if show_progress then [Done] else [])))"
proof -
  have cp: "max 1 (steps div 20) \<noteq> 0" by simp
  show ?thesis
  proof (cases "0 \<le> steps")
    case True
    then have n: "int (nat steps) = steps" by simp
    show ?thesis
      using vdp_loop_prefix [OF cp, of "nat steps" "nat steps" mu dt show_progress x0 v0
          junk_xs junk_xs junk_vs junk_vs] True
      by (simp add: integrate_vdp_def np_empty_def Let_def py_range_def filled_fresh filled_full n)
  next
    case False
    then show ?thesis by (simp add: integrate_vdp_def np_empty_def)
  qed
qed

lemma integrate_vdp_returns:
  fixes mu dt x0 v0 :: "'a::{one, plus, minus, times}"
  shows "(\<exists>xs vs out.
            integrate_vdp room_xs room_vs junk_xs junk_vs mu dt steps x0 v0 show_progress
              = Inr (xs, vs, out))
           = (0 \<le> steps \<and> steps < 2 ^ 60 \<and> steps \<le> room_xs \<and> steps \<le> room_vs)"
  by (auto simp: integrate_vdp_cases)

lemma integrate_vdp_result:
  fixes mu dt x0 v0 :: "'a::{one, plus, minus, times}"
  assumes "integrate_vdp room_xs room_vs junk_xs junk_vs mu dt steps x0 v0 show_progress
             = Inr (xs, vs, out)"
  shows "0 \<le> steps"
    and "xs = map (\<lambda>j. \<lparr>content = fst (state_after (vdp_accel mu) dt x0 v0 (Suc j)), stores = 1\<rparr>)
                [0..<nat steps]"
    and "vs = map (\<lambda>j. \<lparr>content = snd (state_after (vdp_accel mu) dt x0 v0 (Suc j)), stores = 1\<rparr>)
                [0..<nat steps]"
  using assms by (auto simp: integrate_vdp_cases split: if_splits)

lemma state_after_1:
  "state_after law dt x0 v0 (Suc 0) = (x0 + (v0 + law x0 v0 * dt) * dt, v0 + law x0 v0 * dt)"
  by (simp add: state_after_def euler_step_def Let_def)

lemma state_after_step:
  "snd (state_after law dt x0 v0 (Suc k)) =
     snd (state_after law dt x0 v0 k)
     + law (fst (state_after law dt x0 v0 k)) (snd (state_after law dt x0 v0 k)) * dt"
  "fst (state_after law dt x0 v0 (Suc k)) =
     fst (state_after law dt x0 v0 k) + snd (state_after law dt x0 v0 (Suc k)) * dt"
  by (simp_all add: state_after_Suc euler_step_def Let_def)

subsection \<open>The loop of phase\_limit\_cycle.py\<close>

lemma script_body_step:
  assumes "script_body c_pow np_pow np_sin epsilon omega0 dt s = Inr s'"
  shows "\<exists>a. pendulum_accel c_pow np_pow np_sin epsilon omega0 (phi s) (phidot s) = Inr a \<and>
             phidot s' = phidot s + a * dt \<and>
             phi s' = NpFloat64 (fval (phi s) + phidot s' * dt) \<and>
             phi_list s' = phi_list s @ [fval (phi s')]"
  using assms by (auto simp: script_body_def Let_def split: sum.splits)

lemma script_loop_length:
  "script_loop c_pow np_pow np_sin epsilon omega0 dt is s = Inr s' \<Longrightarrow>
     length (phi_list s') = length (phi_list s) + length is"
proof (induction "is" arbitrary: s)
  case Nil
  then show ?case by simp
next
  case (Cons i "is")
  from Cons.prems obtain s1 where
    b: "script_body c_pow np_pow np_sin epsilon omega0 dt s = Inr s1" and
    l: "script_loop c_pow np_pow np_sin epsilon omega0 dt is s1 = Inr s'"
    by (auto split: sum.splits)
  from script_body_step [OF b] have "length (phi_list s1) = Suc (length (phi_list s))"
    by auto
  with Cons.IH [OF l] show ?case by simp
qed

lemma script_loop_last:
  "script_loop c_pow np_pow np_sin epsilon omega0 dt is s = Inr s' \<Longrightarrow> is \<noteq> [] \<Longrightarrow>
     phi s' = NpFloat64 (last (phi_list s'))"
proof (induction "is" arbitrary: s)
  case Nil
  then show ?case by simp
next
  case (Cons i "is")
  from Cons.prems obtain s1 where
    b: "script_body c_pow np_pow np_sin epsilon omega0 dt s = Inr s1" and
    l: "script_loop c_pow np_pow np_sin epsilon omega0 dt is s1 = Inr s'"
    by (auto split: sum.splits)
  show ?case
  proof (cases "is = []")
    case True
    with l have "s' = s1" by simp
    with script_body_step [OF b] show ?thesis by auto
  next
    case False
    with Cons.IH [OF l] show ?thesis by simp
  qed
qed

lemma script_body_returns:
  assumes "py_pow2 c_pow omega0 = Inr w"
    and "scalar_pow2 c_pow np_pow (phi s) = Inr q"
  shows "\<exists>s'. script_body c_pow np_pow np_sin epsilon omega0 dt s = Inr s' \<and>
              (\<exists>x. phi s' = NpFloat64 x)"
  using assms by (simp add: script_body_def pendulum_accel_def Let_def)

lemma script_loop_returns:
  assumes "py_pow2 c_pow omega0 = Inr w"
  shows "scalar_pow2 c_pow np_pow (phi s) = Inr q \<Longrightarrow>
     \<exists>s'. script_loop c_pow np_pow np_sin epsilon omega0 dt is s = Inr s'"
proof (induction "is" arbitrary: s q)
  case Nil
  show ?case by simp
next
  case (Cons i "is")
  from script_body_returns [OF assms Cons.prems] obtain s1 x where
    b: "script_body c_pow np_pow np_sin epsilon omega0 dt s = Inr s1" and x: "phi s1 = NpFloat64 x"
    by blast
  have "scalar_pow2 c_pow np_pow (phi s1) = Inr (np_pow x (Finite 1 1))"
    by (simp add: x)
  from Cons.IH [OF this] show ?case by (simp add: b)
qed

lemma phase_limit_cycle_returns:
  assumes "py_pow2 c_pow omega0 = Inr w" "py_pow2 c_pow phi0 = Inr q"
  shows "\<exists>r. phase_limit_cycle c_pow np_pow np_sin epsilon omega0 dt steps phi0 phidot0 = Inr r"
  unfolding phase_limit_cycle_def
  by (rule script_loop_returns [OF assms(1), where q = q]) (simp add: assms(2))

lemma phase_limit_cycle_length:
  "phase_limit_cycle c_pow np_pow np_sin epsilon omega0 dt steps phi0 phidot0 = Inr r \<Longrightarrow>
     length (phi_list r) = nat steps"
  unfolding phase_limit_cycle_def
  by (drule script_loop_length) (simp add: py_range_def)

lemma py_pow2_one: "py_pow2 c_pow (Finite 1 0) = Inr (Finite 1 0)"
  by (simp add: py_pow2_def)


subsection \<open>Floats\<close>

lemmas f64_arith = plus_f64_def minus_f64_def times_f64_def uminus_f64_def one_f64_def zero_f64_def
  f64_add_def f64_sub_def f64_mul_def round_scaled_def round_ratio_def ilog2_ratio_def
  round_nearest_even_def Let_def bit_length.simps strip_zeros.simps

lemma zero_times_finite:
  fixes a b :: f64
  shows "is_zero a \<Longrightarrow> is_finite b \<Longrightarrow> is_zero (a * b)"
  by (cases a; cases b) (simp_all add: times_f64_def f64_mul_def)

lemma zero_minus_finite:
  fixes z x :: f64
  shows "is_zero z \<Longrightarrow> is_finite x \<Longrightarrow> float_eq (z - x) (- x)"
  by (cases z; cases x)
     (simp_all add: minus_f64_def uminus_f64_def f64_sub_def f64_add_def float_eq_def)

lemma zero_times_not_finite:
  fixes a b :: f64
  shows "is_zero a \<Longrightarrow> \<not> is_finite b \<Longrightarrow> a * b = NaN"
  by (cases a; cases b) (simp_all add: times_f64_def f64_mul_def)

lemma nan_propagates:
  fixes v x :: f64
  shows "NaN * v = NaN" "NaN - x = NaN"
  by (simp_all add: times_f64_def f64_mul_def minus_f64_def f64_sub_def f64_add_def)

text \<open>Ties at \<open>2^53\<close> go to the even neighbour.\<close>

lemma f64_add_ties:
  "Finite 1 53 + Finite 1 0 = Finite 1 53" "Finite 1 53 + Finite 3 0 = Finite 2251799813685249 2"
  by (simp_all add: f64_arith)

lemma progress_pct_zero_division:
  "(progress_pct i steps = Inl ZeroDivisionError) = (steps = 0)"
proof (cases "steps = 0")
  case True
  then show ?thesis by (simp add: progress_pct_def py_truediv_def)
next
  case False
  have no: "py_int f \<noteq> Inl ZeroDivisionError" for f
    by (cases f) simp_all
  show ?thesis
    using False no
    by (auto simp: progress_pct_def py_truediv_def split: f64.splits sum.splits)
qed

text \<open>The decimal literals of the two scripts, as the floats they denote.\<close>

lemma script_constants:
  "py_truediv 3 10 = Inr (Finite 5404319552844595 (- 54))"
  "py_truediv 1 100 = Inr (Finite 5764607523034235 (- 59))"
  "py_truediv 1 10 = Inr (Finite 3602879701896397 (- 55))"
  by (simp_all add: py_truediv_def round_ratio_def ilog2_ratio_def round_nearest_even_def Let_def
        bit_length.simps strip_zeros.simps)




section \<open>The claims\<close>

text \<open>
  C1 (as amended). A run of integrate\_vdp with \<open>steps \<ge> 1\<close> that returns has followed
  the semi-implicit Euler order at every step: the acceleration is computed from the pair
  recorded for the step before (from \<open>(x0, v0)\<close> at the first step), the velocity is
  updated with it, the position is updated with the new velocity, and the updated pair is
  stored at the step's index. So \<open>velocities[0] = v0 + a(x0, v0) * dt\<close> and
  \<open>positions[0] = x0 + velocities[0] * dt\<close>, index \<open>i + 1\<close> is obtained from index
  \<open>i\<close> in the same way, and the arrays have exactly \<open>steps\<close> elements: the initial
  pair is not among the recorded steps. The run returns for every \<open>steps \<ge> 1\<close> for
  which both arrays can be allocated, that is \<open>steps < 2^60\<close> with room for both. An
  iteration of the loop of phase\_limit\_cycle.py that raises nothing updates in the same
  order, the acceleration being the one of the pendulum, but records the new position
  only: it appends it to \<open>phi_list\<close> and keeps the velocity as the scalar
  \<open>phidot\<close>.
\<close>

theorem semi_implicit_order:
  fixes mu dt x0 v0 :: "'a::{one, plus, minus, times}"
  shows "(1 \<le> steps \<and>
          integrate_vdp room_xs room_vs junk_xs junk_vs mu dt steps x0 v0 show_progress
            = Inr (xs, vs, out) \<longrightarrow>
            length (np_values xs) = nat steps \<and> length (np_values vs) = nat steps \<and>
            np_values vs ! 0 = v0 + vdp_accel mu x0 v0 * dt \<and>
            np_values xs ! 0 = x0 + np_values vs ! 0 * dt \<and>
            (\<forall>i. Suc i < nat steps \<longrightarrow>
               np_values vs ! Suc i =
                 np_values vs ! i + vdp_accel mu (np_values xs ! i) (np_values vs ! i) * dt \<and>
               np_values xs ! Suc i = np_values xs ! i + np_values vs ! Suc i * dt))
       \<and> (1 \<le> steps \<and> steps < 2 ^ 60 \<and> steps \<le> room_xs \<and> steps \<le> room_vs \<longrightarrow>
            (\<exists>xs vs out.
               integrate_vdp room_xs room_vs junk_xs junk_vs mu dt steps x0 v0 show_progress
                 = Inr (xs, vs, out)))
       \<and> (script_body c_pow np_pow np_sin epsilon omega0 script_dt s = Inr s' \<longrightarrow>
            (\<exists>a. pendulum_accel c_pow np_pow np_sin epsilon omega0 (phi s) (phidot s) = Inr a \<and>
                 phidot s' = phidot s + a * script_dt \<and>
                 fval (phi s') = fval (phi s) + phidot s' * script_dt \<and>
                 phi_list s' = phi_list s @ [fval (phi s')]))"
proof (intro conjI impI)
  let ?T = "state_after (vdp_accel mu) dt x0 v0"
  assume a: "1 \<le> steps \<and>
    integrate_vdp room_xs room_vs junk_xs junk_vs mu dt steps x0 v0 show_progress = Inr (xs, vs, out)"
  then have n: "0 < nat steps" by simp
  from a integrate_vdp_result [of room_xs room_vs junk_xs junk_vs mu dt steps x0 v0 show_progress xs vs out]
  have xs: "np_values xs = map (\<lambda>j. fst (?T (Suc j))) [0..<nat steps]"
    and vs: "np_values vs = map (\<lambda>j. snd (?T (Suc j))) [0..<nat steps]"
    by (simp_all add: np_values_def comp_def)
  show "length (np_values xs) = nat steps" "length (np_values vs) = nat steps"
    by (simp_all add: xs vs)
  show "np_values vs ! 0 = v0 + vdp_accel mu x0 v0 * dt"
    using n by (simp add: vs state_after_1)
  show "np_values xs ! 0 = x0 + np_values vs ! 0 * dt"
    using n by (simp add: xs vs state_after_1)
  show "\<forall>i. Suc i < nat steps \<longrightarrow>
               np_values vs ! Suc i =
                 np_values vs ! i + vdp_accel mu (np_values xs ! i) (np_values vs ! i) * dt \<and>
               np_values xs ! Suc i = np_values xs ! i + np_values vs ! Suc i * dt"
    by (simp add: xs vs state_after_step [of _ _ _ _ "Suc _"])
next
  assume "1 \<le> steps \<and> steps < 2 ^ 60 \<and> steps \<le> room_xs \<and> steps \<le> room_vs"
  then show "\<exists>xs vs out.
      integrate_vdp room_xs room_vs junk_xs junk_vs mu dt steps x0 v0 show_progress = Inr (xs, vs, out)"
    by (simp add: integrate_vdp_returns)
next
  assume "script_body c_pow np_pow np_sin epsilon omega0 script_dt s = Inr s'"
  from script_body_step [OF this]
  show "\<exists>a. pendulum_accel c_pow np_pow np_sin epsilon omega0 (phi s) (phidot s) = Inr a \<and>
                 phidot s' = phidot s + a * script_dt \<and>
                 fval (phi s') = fval (phi s) + phidot s' * script_dt \<and>
                 phi_list s' = phi_list s @ [fval (phi s')]"
    by auto
qed

theorem semi_implicit_order_witness:
  "(1 :: int) \<le> 1 \<and> (1 :: int) < 2 ^ 60 \<and>
   (\<exists>xs vs out.
      integrate_vdp 1 1 (\<lambda>k. NaN) (\<lambda>k. NaN) (Finite 5404319552844595 (- 52))
        (Finite 5764607523034235 (- 59)) 1 (Finite 3602879701896397 (- 55)) (Finite 0 0) True
        = Inr (xs, vs, out) \<and>
      np_values vs = [Finite (- 1152921504606847) (- 60)] \<and>
      np_values xs = [Finite 7205038827852415 (- 56)]) \<and>
   (\<forall>np_pow np_sin.
      \<exists>s'. script_body (\<lambda>x y. x * x) np_pow np_sin (Finite 5404319552844595 (- 54))
             (Finite 1 0) (Finite 5764607523034235 (- 59))
             \<lparr>phi = PyFloat (Finite 3602879701896397 (- 55)), phidot = Finite 0 0, phi_list = []\<rparr>
             = Inr s' \<and>
           phi_list s' = [fval (phi s')])"
proof -
  let ?mu = "Finite 5404319552844595 (- 52)" and ?dt = "Finite 5764607523034235 (- 59)"
    and ?x0 = "Finite 3602879701896397 (- 55)" and ?v0 = "Finite 0 0"
  let ?s = "\<lparr>phi = PyFloat ?x0, phidot = Finite 0 0, phi_list = []\<rparr>"
  have h: "(1 :: int) \<le> 1 \<and> (1 :: int) < 2 ^ 60 \<and> (1 :: int) \<le> 1 \<and> (1 :: int) \<le> 1" by simp
  note inst = semi_implicit_order [where steps = 1 and room_xs = 1 and room_vs = 1
      and junk_xs = "\<lambda>k. NaN" and junk_vs = "\<lambda>k. NaN" and mu = ?mu and dt = ?dt
      and ?x0.0 = ?x0 and ?v0.0 = ?v0 and show_progress = True
      and c_pow = "\<lambda>x y. x * x"
      and epsilon = "Finite 5404319552844595 (- 54)" and ?omega0.0 = "Finite 1 0"
      and script_dt = ?dt and s = ?s]
  have sq: "?x0 * ?x0 = Finite 1441151880758559 (- 57)"
    by (simp add: f64_arith)
  have one: "1 - Finite 1441151880758559 (- 57) = Finite 4458563631096791 (- 52)"
    by (simp add: f64_arith)
  have m1: "?mu * Finite 4458563631096791 (- 52) = Finite 5350276357316149 (- 52)"
    by (simp add: f64_arith)
  have m2: "Finite 5350276357316149 (- 52) * ?v0 = Finite 0 0"
    by (simp add: f64_arith)
  have a: "Finite 0 0 - ?x0 = Finite (- 3602879701896397) (- 55)"
    by (simp add: f64_arith)
  have acc: "vdp_accel ?mu ?x0 ?v0 = Finite (- 3602879701896397) (- 55)"
    by (simp add: vdp_accel_def sq one m1 m2 a)
  have adt: "Finite (- 3602879701896397) (- 55) * ?dt = Finite (- 1152921504606847) (- 60)"
    by (simp add: f64_arith)
  have v: "?v0 + Finite (- 1152921504606847) (- 60) = Finite (- 1152921504606847) (- 60)"
    by (simp add: f64_arith)
  have vdt: "Finite (- 1152921504606847) (- 60) * ?dt = Finite (- 5902958103587057) (- 69)"
    by (simp add: f64_arith)
  have x: "?x0 + Finite (- 5902958103587057) (- 69) = Finite 7205038827852415 (- 56)"
    by (simp add: f64_arith)
  from inst h obtain xs vs out where run:
    "integrate_vdp 1 1 (\<lambda>k. NaN) (\<lambda>k. NaN) ?mu ?dt 1 ?x0 ?v0 True = Inr (xs, vs, out)"
    by blast
  with inst have r:
    "length (np_values xs) = nat 1" "length (np_values vs) = nat 1"
    "np_values vs ! 0 = ?v0 + vdp_accel ?mu ?x0 ?v0 * ?dt"
    "np_values xs ! 0 = ?x0 + np_values vs ! 0 * ?dt"
    by simp_all
  have "np_values vs = [np_values vs ! 0]" "np_values xs = [np_values xs ! 0]"
    using r(1,2) by (cases "np_values vs"; cases "np_values xs"; simp)+
  then have vals: "np_values vs = [Finite (- 1152921504606847) (- 60)]"
    "np_values xs = [Finite 7205038827852415 (- 56)]"
    using r(3,4) by (simp_all add: acc adt v vdt x)
  have p1: "py_pow2 (\<lambda>x y. x * x) (Finite 1 0) = Inr (Finite 1 0)"
    by (rule py_pow2_one)
  have scr: "\<exists>s'. script_body (\<lambda>x y. x * x) np_pow np_sin (Finite 5404319552844595 (- 54))
                    (Finite 1 0) ?dt ?s = Inr s' \<and> phi_list s' = [fval (phi s')]"
    for np_pow np_sin
  proof -
    have p2: "scalar_pow2 (\<lambda>x y. x * x) np_pow (phi ?s) = Inr (Finite 1441151880758559 (- 57))"
      by (simp add: py_pow2_def sq)
    from script_body_returns [OF p1 p2] obtain s' where
      b: "script_body (\<lambda>x y. x * x) np_pow np_sin (Finite 5404319552844595 (- 54))
            (Finite 1 0) ?dt ?s = Inr s'"
      by blast
    with inst [where np_pow = np_pow and np_sin = np_sin and s' = s']
    have "phi_list s' = [fval (phi s')]"
      by auto
    with b show ?thesis by blast
  qed
  from vals run h scr show ?thesis by blast
qed

text \<open>
  The claim as it was stated takes every \<open>steps \<ge> 1\<close>. At \<open>steps = 2^64\<close>, with
  the other arguments as main passes them by default, the first \<open>np.empty\<close> raises
  ValueError, whatever room the allocator has: no step is made and nothing is recorded.
\<close>

theorem no_step_at_a_length_that_does_not_fit:
  "(1 :: int) \<le> 2 ^ 64 \<and>
   integrate_vdp (2 ^ 64) (2 ^ 64) (\<lambda>k. NaN) (\<lambda>k. NaN) (Finite 5404319552844595 (- 52))
     (Finite 5764607523034235 (- 59)) (2 ^ 64) (Finite 3602879701896397 (- 55)) (Finite 0 0) True
     = Inl ValueError"
  by (simp add: integrate_vdp_def np_empty_def)




text \<open>
  C3 (as amended). A run of integrate\_vdp that returns was given \<open>steps \<ge> 0\<close> and
  returns two arrays of exactly \<open>steps\<close> elements each, index \<open>i\<close> of the two
  holding the position and the velocity after step \<open>i + 1\<close>; for \<open>steps = 0\<close> both
  are empty. The run returns for every \<open>steps \<ge> 0\<close> for which both arrays can be
  allocated, that is \<open>steps < 2^60\<close> with room for both. The loop of
  phase\_limit\_cycle.py records one sequence, the positions: when it raises nothing,
  \<open>phi_list\<close> has one element for each step, none for \<open>steps \<le> 0\<close>, and its last
  element is the final \<open>phi\<close>. It raises nothing when \<open>omega0**2\<close> and the square
  of the initial \<open>phi\<close> return, as they do for the constants of the script.
\<close>

theorem recorded_lengths:
  fixes mu dt x0 v0 :: "'a::{one, plus, minus, times}"
  shows "(integrate_vdp room_xs room_vs junk_xs junk_vs mu dt steps x0 v0 show_progress
            = Inr (xs, vs, out) \<longrightarrow>
            0 \<le> steps \<and>
            length (np_values xs) = nat steps \<and> length (np_values vs) = nat steps \<and>
            (steps = 0 \<longrightarrow> np_values xs = [] \<and> np_values vs = []) \<and>
            (\<forall>i < nat steps.
               (np_values xs ! i, np_values vs ! i) = state_after (vdp_accel mu) dt x0 v0 (Suc i)))
       \<and> (0 \<le> steps \<and> steps < 2 ^ 60 \<and> steps \<le> room_xs \<and> steps \<le> room_vs \<longrightarrow>
            (\<exists>xs vs out.
               integrate_vdp room_xs room_vs junk_xs junk_vs mu dt steps x0 v0 show_progress
                 = Inr (xs, vs, out)))
       \<and> (phase_limit_cycle c_pow np_pow np_sin epsilon omega0 script_dt steps phi0 phidot0 = Inr r \<longrightarrow>
            length (phi_list r) = nat steps \<and>
            (steps \<le> 0 \<longrightarrow> phi_list r = []) \<and>
            (1 \<le> steps \<longrightarrow> phi r = NpFloat64 (last (phi_list r))))
       \<and> ((\<exists>w. py_pow2 c_pow omega0 = Inr w) \<and> (\<exists>q. py_pow2 c_pow phi0 = Inr q) \<longrightarrow>
            (\<exists>r. phase_limit_cycle c_pow np_pow np_sin epsilon omega0 script_dt steps phi0 phidot0
                   = Inr r))"
proof (intro conjI impI)
  let ?T = "state_after (vdp_accel mu) dt x0 v0"
  assume a: "integrate_vdp room_xs room_vs junk_xs junk_vs mu dt steps x0 v0 show_progress
    = Inr (xs, vs, out)"
  from integrate_vdp_result [OF a]
  have s: "0 \<le> steps"
    and xs: "np_values xs = map (\<lambda>j. fst (?T (Suc j))) [0..<nat steps]"
    and vs: "np_values vs = map (\<lambda>j. snd (?T (Suc j))) [0..<nat steps]"
    by (simp_all add: np_values_def comp_def)
  show "0 \<le> steps" by (rule s)
  show "length (np_values xs) = nat steps" "length (np_values vs) = nat steps"
    by (simp_all add: xs vs)
  show "np_values xs = []" "np_values vs = []" if "steps = 0"
    using that by (simp_all add: xs vs)
  show "\<forall>i < nat steps.
      (np_values xs ! i, np_values vs ! i) = state_after (vdp_accel mu) dt x0 v0 (Suc i)"
    by (simp add: xs vs)
next
  assume "0 \<le> steps \<and> steps < 2 ^ 60 \<and> steps \<le> room_xs \<and> steps \<le> room_vs"
  then show "\<exists>xs vs out.
      integrate_vdp room_xs room_vs junk_xs junk_vs mu dt steps x0 v0 show_progress = Inr (xs, vs, out)"
    by (simp add: integrate_vdp_returns)
next
  assume r: "phase_limit_cycle c_pow np_pow np_sin epsilon omega0 script_dt steps phi0 phidot0 = Inr r"
  show len: "length (phi_list r) = nat steps"
    using r by (rule phase_limit_cycle_length)
  show "phi_list r = []" if "steps \<le> 0"
    using len that by simp
  show "phi r = NpFloat64 (last (phi_list r))" if "1 \<le> steps"
  proof -
    have "py_range steps \<noteq> []" using that by (simp add: py_range_def)
    with r show ?thesis
      unfolding phase_limit_cycle_def by (rule script_loop_last)
  qed
next
  assume "(\<exists>w. py_pow2 c_pow omega0 = Inr w) \<and> (\<exists>q. py_pow2 c_pow phi0 = Inr q)"
  then show "\<exists>r. phase_limit_cycle c_pow np_pow np_sin epsilon omega0 script_dt steps phi0 phidot0 = Inr r"
    using phase_limit_cycle_returns by blast
qed

theorem recorded_lengths_witness:
  "(0 :: int) \<le> 2 \<and> (2 :: int) < 2 ^ 60 \<and>
   (\<exists>xs vs out.
      integrate_vdp 2 2 (\<lambda>k. NaN) (\<lambda>k. NaN) (Finite 5404319552844595 (- 52))
        (Finite 5764607523034235 (- 59)) 2 (Finite 3602879701896397 (- 55)) (Finite 0 0) True
        = Inr (xs, vs, out) \<and>
      length (np_values xs) = 2 \<and> length (np_values vs) = 2) \<and>
   (\<forall>np_pow np_sin.
      \<exists>r. script_run (\<lambda>x y. x * x) np_pow np_sin = Inr r \<and> length (phi_list r) = 20000)"
proof -
  let ?mu = "Finite 5404319552844595 (- 52)" and ?dt = "Finite 5764607523034235 (- 59)"
    and ?x0 = "Finite 3602879701896397 (- 55)" and ?v0 = "Finite 0 0"
  have h: "(0 :: int) \<le> 2 \<and> (2 :: int) < 2 ^ 60 \<and> (2 :: int) \<le> 2 \<and> (2 :: int) \<le> 2" by simp
  note inst = recorded_lengths [where steps = 2 and room_xs = 2 and room_vs = 2
      and junk_xs = "\<lambda>k. NaN" and junk_vs = "\<lambda>k. NaN" and mu = ?mu and dt = ?dt
      and ?x0.0 = ?x0 and ?v0.0 = ?v0 and show_progress = True]
  from inst h obtain xs vs out where run:
    "integrate_vdp 2 2 (\<lambda>k. NaN) (\<lambda>k. NaN) ?mu ?dt 2 ?x0 ?v0 True = Inr (xs, vs, out)"
    by blast
  with inst have len: "length (np_values xs) = 2" "length (np_values vs) = 2"
    by simp_all
  have sq: "?x0 * ?x0 = Finite 1441151880758559 (- 57)"
    by (simp add: f64_arith)
  have p1: "\<exists>w. py_pow2 (\<lambda>x y. x * x) (Finite 1 0) = Inr w"
    by (simp add: py_pow2_one)
  have p2: "\<exists>q. py_pow2 (\<lambda>x y. x * x) ?x0 = Inr q"
    by (simp add: py_pow2_def sq)
  have scr: "\<exists>r. script_run (\<lambda>x y. x * x) np_pow np_sin = Inr r \<and> length (phi_list r) = 20000"
    for np_pow np_sin
  proof -
    note scr = recorded_lengths [where steps = 20000 and c_pow = "\<lambda>x y. x * x"
        and np_pow = np_pow and np_sin = np_sin
        and epsilon = "Finite 5404319552844595 (- 54)" and ?omega0.0 = "Finite 1 0"
        and script_dt = ?dt and ?phi0.0 = ?x0 and ?phidot0.0 = "Finite 0 0"
        and mu = ?mu and dt = ?dt and ?x0.0 = ?x0 and ?v0.0 = ?v0]
    from scr p1 p2 obtain r where r:
      "phase_limit_cycle (\<lambda>x y. x * x) np_pow np_sin (Finite 5404319552844595 (- 54))
         (Finite 1 0) ?dt 20000 ?x0 (Finite 0 0) = Inr r"
      by blast
    with scr have "length (phi_list r) = nat 20000"
      by blast
    then have "script_run (\<lambda>x y. x * x) np_pow np_sin = Inr r \<and> length (phi_list r) = 20000"
      using r by (simp add: script_run_def)
    then show ?thesis by blast
  qed
  from run len h scr show ?thesis by blast
qed

text \<open>
  The claim as it was stated takes every \<open>steps \<ge> 0\<close>. At \<open>steps = 2^63\<close>, with
  the other arguments as main passes them by default and progress reporting off, the
  first \<open>np.empty\<close> raises ValueError, whatever room the allocator has: the run
  returns no sequences.
\<close>

theorem no_arrays_at_a_length_that_does_not_fit:
  "(0 :: int) \<le> 2 ^ 63 \<and>
   integrate_vdp (2 ^ 63) (2 ^ 63) (\<lambda>k. NaN) (\<lambda>k. NaN) (Finite 5404319552844595 (- 52))
     (Finite 5764607523034235 (- 59)) (2 ^ 63) (Finite 3602879701896397 (- 55)) (Finite 0 0) False
     = Inl ValueError"
  by (simp add: integrate_vdp_def np_empty_def)

text \<open>
  C4. For a trajectory of length \<open>N \<ge> 1\<close> and any integer \<open>k\<close>, the split uses
  the index \<open>max(0, min(k, N - 1))\<close>, which lies in \<open>[0, N - 1]\<close>; the transient is
  the trajectory before that index and the cycle is the rest, so their lengths add up to
  \<open>N\<close>. The split is made of \<open>max\<close>, \<open>min\<close>, \<open>len\<close> and two slices, none of
  which raises.
\<close>

theorem split_transient_clamps:
  assumes "1 \<le> length xs" "length vs = length xs"
  shows "(let r = split_transient k xs vs; N = int (length xs)
          in transient r = max 0 (min k (N - 1)) \<and>
             0 \<le> transient r \<and> transient r \<le> N - 1 \<and>
             xs_tr r = take (nat (transient r)) xs \<and> xs_cy r = drop (nat (transient r)) xs \<and>
             vs_tr r = take (nat (transient r)) vs \<and> vs_cy r = drop (nat (transient r)) vs \<and>
             int (length (xs_tr r)) + int (length (xs_cy r)) = N \<and>
             int (length (vs_tr r)) + int (length (vs_cy r)) = N)"
  using assms
  by (auto simp: split_transient_def slice_to_def slice_from_def slice_bound_def Let_def min_def max_def)

theorem split_transient_clamps_witness:
  "1 \<le> length [10, 20, 30 :: int] \<and> length [1, 2, 3 :: int] = length [10, 20, 30 :: int] \<and>
   split_transient 7 [10, 20, 30 :: int] [1, 2, 3] =
     \<lparr>transient = 2, xs_tr = [10, 20], vs_tr = [1, 2], xs_cy = [30], vs_cy = [3]\<rparr> \<and>
   split_transient (- 4) [10, 20, 30 :: int] [1, 2, 3] =
     \<lparr>transient = 0, xs_tr = [], vs_tr = [], xs_cy = [10, 20, 30], vs_cy = [1, 2, 3]\<rparr>"
proof -
  have h: "1 \<le> length [10, 20, 30 :: int]" "length [1, 2, 3 :: int] = length [10, 20, 30 :: int]"
    by simp_all
  have a: "split_transient 7 [10, 20, 30 :: int] [1, 2, 3] =
     \<lparr>transient = 2, xs_tr = [10, 20], vs_tr = [1, 2], xs_cy = [30], vs_cy = [3]\<rparr>"
    using split_transient_clamps [OF h, of 7]
    by (simp add: Let_def split_transient_def)
  have b: "split_transient (- 4) [10, 20, 30 :: int] [1, 2, 3] =
     \<lparr>transient = 0, xs_tr = [], vs_tr = [], xs_cy = [10, 20, 30], vs_cy = [1, 2, 3]\<rparr>"
    using split_transient_clamps [OF h, of "- 4"]
    by (simp add: Let_def split_transient_def)
  show ?thesis using h a b by simp
qed

text \<open>
  C5. With a negative step count, integrate\_vdp raises before its loop starts: the
  first \<open>np.empty\<close> refuses the negative dimension, so the caller gets ValueError and
  no arrays, whatever the other arguments are.
\<close>

theorem integrate_vdp_negative_steps:
  "steps < 0 \<Longrightarrow>
     integrate_vdp room_xs room_vs junk_xs junk_vs mu dt steps x0 v0 show_progress = Inl ValueError"
  by (simp add: integrate_vdp_def np_empty_def)

theorem integrate_vdp_negative_steps_witness:
  "(- 3 :: int) < 0 \<and>
   integrate_vdp 10 10 (\<lambda>k. 0) (\<lambda>k. 0) (Finite 1 0) (Finite 1 (- 1)) (- 3) (Finite 1 0) (Finite 0 0)
     True = Inl ValueError"
  using integrate_vdp_negative_steps [of "- 3" 10 10 "\<lambda>k. 0" "\<lambda>k. 0" "Finite 1 0"
      "Finite 1 (- 1)" "Finite 1 0" "Finite 0 0" True]
  by simp

text \<open>
  C6. Two runs of integrate\_vdp on the same arguments give the same result, element for
  element. What can differ between two runs is the memory that \<open>np.empty\<close> hands out
  and the room the allocator has. The result (the arrays and the output, or the error)
  does not depend on the content of the memory; and two runs that both return, with
  whatever room and memory each of them found, return the same.
\<close>

theorem integrate_vdp_deterministic:
  fixes mu dt x0 v0 :: "'a::{one, plus, minus, times}"
  shows "integrate_vdp room_xs room_vs junk_xs junk_vs mu dt steps x0 v0 show_progress =
         integrate_vdp room_xs room_vs junk_xs' junk_vs' mu dt steps x0 v0 show_progress
       \<and> (integrate_vdp room_xs room_vs junk_xs junk_vs mu dt steps x0 v0 show_progress = Inr r \<and>
          integrate_vdp room_xs' room_vs' junk_xs' junk_vs' mu dt steps x0 v0 show_progress = Inr r'
            \<longrightarrow> r = r')"
  by (auto simp: integrate_vdp_cases split: if_splits)

theorem integrate_vdp_deterministic_witness:
  "\<exists>r r'.
     integrate_vdp 1 1 (\<lambda>k. NaN) (\<lambda>k. NaN) (Finite 5404319552844595 (- 52))
       (Finite 5764607523034235 (- 59)) 1 (Finite 3602879701896397 (- 55)) (Finite 0 0) True = Inr r \<and>
     integrate_vdp 5 7 (\<lambda>k. PosInf) (\<lambda>k. 0) (Finite 5404319552844595 (- 52))
       (Finite 5764607523034235 (- 59)) 1 (Finite 3602879701896397 (- 55)) (Finite 0 0) True = Inr r' \<and>
     r = r'"
proof -
  let ?mu = "Finite 5404319552844595 (- 52)" and ?dt = "Finite 5764607523034235 (- 59)"
    and ?x0 = "Finite 3602879701896397 (- 55)" and ?v0 = "Finite 0 0"
  have "\<exists>xs vs out. integrate_vdp 1 1 (\<lambda>k. NaN) (\<lambda>k. NaN) ?mu ?dt 1 ?x0 ?v0 True = Inr (xs, vs, out)"
    by (simp add: integrate_vdp_returns)
  then obtain r where r: "integrate_vdp 1 1 (\<lambda>k. NaN) (\<lambda>k. NaN) ?mu ?dt 1 ?x0 ?v0 True = Inr r"
    by blast
  have "\<exists>xs vs out. integrate_vdp 5 7 (\<lambda>k. PosInf) (\<lambda>k. 0) ?mu ?dt 1 ?x0 ?v0 True = Inr (xs, vs, out)"
    by (simp add: integrate_vdp_returns)
  then obtain r' where r': "integrate_vdp 5 7 (\<lambda>k. PosInf) (\<lambda>k. 0) ?mu ?dt 1 ?x0 ?v0 True = Inr r'"
    by blast
  from integrate_vdp_deterministic [where room_xs = 1 and room_vs = 1 and room_xs' = 5
      and room_vs' = 7 and junk_xs = "\<lambda>k. NaN" and junk_vs = "\<lambda>k. NaN"
      and junk_xs' = "\<lambda>k. PosInf" and junk_vs' = "\<lambda>k. 0" and mu = ?mu and dt = ?dt
      and steps = 1 and ?x0.0 = ?x0 and ?v0.0 = ?v0 and show_progress = True and r = r and r' = r']
    r r'
  have "r = r'" by blast
  with r r' show ?thesis by blast
qed

text \<open>
  C7. With and without progress reporting, integrate\_vdp returns the same two arrays (or
  raises the same error): the flag changes only what is printed.
\<close>

theorem progress_does_not_change_result:
  fixes mu dt x0 v0 :: "'a::{one, plus, minus, times}"
  shows "map_sum id (\<lambda>(xs, vs, out). (xs, vs))
           (integrate_vdp room_xs room_vs junk_xs junk_vs mu dt steps x0 v0 True) =
         map_sum id (\<lambda>(xs, vs, out). (xs, vs))
           (integrate_vdp room_xs room_vs junk_xs junk_vs mu dt steps x0 v0 False)"
  by (simp add: integrate_vdp_cases)

text \<open>
  C8 (as amended). With \<open>mu\<close> zero (of either sign) and a finite position and
  velocity, the Van der Pol acceleration equals \<open>- x\<close> (as Python's \<open>==\<close> compares
  floats) exactly when the intermediate value \<open>1.0 - x * x\<close> is finite.
\<close>

theorem vdp_accel_zero_damping:
  fixes mu x v :: f64
  assumes "is_zero mu" "is_finite x" "is_finite v"
  shows "float_eq (vdp_accel mu x v) (- x) = is_finite (1 - x * x)"
proof (cases "is_finite (1 - x * x)")
  case True
  have "is_zero (mu * (1 - x * x))"
    using assms(1) True by (rule zero_times_finite)
  then have "is_zero (mu * (1 - x * x) * v)"
    using assms(3) by (rule zero_times_finite)
  then have "float_eq (mu * (1 - x * x) * v - x) (- x)"
    using assms(2) by (rule zero_minus_finite)
  then show ?thesis
    using True by (simp add: vdp_accel_def)
next
  case False
  have "mu * (1 - x * x) = NaN"
    using assms(1) False by (rule zero_times_not_finite)
  then have "vdp_accel mu x v = NaN"
    by (simp add: vdp_accel_def nan_propagates)
  then show ?thesis
    using False by (simp add: float_eq_def)
qed

theorem vdp_accel_zero_damping_witness:
  "is_zero (0 :: f64) \<and> is_finite (Finite 3 0) \<and> is_finite (Finite 1 0) \<and>
   is_finite (1 - Finite 3 0 * Finite 3 0) \<and>
   float_eq (vdp_accel 0 (Finite 3 0) (Finite 1 0)) (- Finite 3 0)"
proof -
  have h1: "is_zero (0 :: f64)" by (simp add: zero_f64_def)
  have h2: "is_finite (Finite 3 0)" "is_finite (Finite 1 0)" by simp_all
  have h3: "is_finite (1 - Finite 3 0 * Finite 3 0)" by (simp add: f64_arith)
  show ?thesis
    using h1 h2 h3 vdp_accel_zero_damping [OF h1 h2] by simp
qed

text \<open>
  The claim as it was stated takes every finite state. At \<open>x = 2^600\<close>, a finite
  float, \<open>x * x\<close> overflows to infinity, \<open>0.0\<close> times the infinite \<open>1.0 - x * x\<close>
  is NaN, and the acceleration is NaN, which is not equal to \<open>- x\<close>.
\<close>

theorem vdp_accel_zero_damping_overflow:
  "is_f64 (Finite 1 600) \<and> is_finite (Finite 1 600) \<and> is_finite (Finite 1 0) \<and>
   vdp_accel 0 (Finite 1 600) (Finite 1 0) = NaN \<and>
   \<not> float_eq (vdp_accel 0 (Finite 1 600) (Finite 1 0)) (- Finite 1 600)"
proof -
  have sq: "Finite 1 600 * Finite 1 600 = PosInf"
    by (simp add: times_f64_def f64_mul_def round_scaled_def round_ratio_def)
  have acc: "vdp_accel 0 (Finite 1 600) (Finite 1 0) = NaN"
    by (simp add: vdp_accel_def sq)
       (simp add: plus_f64_def minus_f64_def times_f64_def one_f64_def zero_f64_def
          f64_add_def f64_sub_def f64_mul_def)
  have enc: "is_f64 (Finite 1 600)"
    by (simp add: bit_length.simps)
  show ?thesis
    using enc by (simp add: acc float_eq_def)
qed

text \<open>
  C9. The progress computation never divides by zero. The checkpoint interval
  \<open>max(1, steps // 20)\<close> is at least \<open>1\<close>, so \<open>i % checkpoint\<close> has a result;
  \<open>100 * (i + 1) / steps\<close> raises ZeroDivisionError only for \<open>steps = 0\<close>, for which
  the loop has no iteration; and no run of integrate\_vdp ends in ZeroDivisionError.
\<close>

theorem progress_never_divides_by_zero:
  fixes mu dt x0 v0 :: "'a::{one, plus, minus, times}"
  shows "1 \<le> max 1 (steps div 20) \<and>
         py_mod i (max 1 (steps div 20)) = Inr (i mod max 1 (steps div 20)) \<and>
         (progress_pct i steps = Inl ZeroDivisionError) = (steps = 0) \<and>
         (py_range steps = []) = (steps \<le> 0) \<and>
         integrate_vdp room_xs room_vs junk_xs junk_vs mu dt steps x0 v0 show_progress
           \<noteq> Inl ZeroDivisionError"
proof -
  have run: "integrate_vdp room_xs room_vs junk_xs junk_vs mu dt steps x0 v0 show_progress
      \<noteq> Inl ZeroDivisionError"
    by (simp add: integrate_vdp_cases)
  have md: "py_mod i (max 1 (steps div 20)) = Inr (i mod max 1 (steps div 20))"
    by (simp add: py_mod_def)
  show ?thesis
    using run md by (simp add: progress_pct_zero_division py_range_def)
qed

text \<open>
  C10. The arrays that integrate\_vdp returns hold nothing of what \<open>np.empty\<close> found
  in memory: when a run returns, both arrays have length \<open>steps\<close>, and every cell of
  both has been stored to exactly once and holds the position (the velocity) computed for
  its step. The run returns for every \<open>steps \<ge> 0\<close> for which both arrays can be
  allocated, that is \<open>steps < 2^60\<close> with room for both.
\<close>

theorem buffers_fully_written:
  fixes mu dt x0 v0 :: "'a::{one, plus, minus, times}"
  shows "(integrate_vdp room_xs room_vs junk_xs junk_vs mu dt steps x0 v0 show_progress
            = Inr (xs, vs, out) \<longrightarrow>
            length xs = nat steps \<and> length vs = nat steps \<and>
            (\<forall>i < nat steps.
               stores (xs ! i) = 1 \<and> stores (vs ! i) = 1 \<and>
               (content (xs ! i), content (vs ! i)) = state_after (vdp_accel mu) dt x0 v0 (Suc i)))
       \<and> (0 \<le> steps \<and> steps < 2 ^ 60 \<and> steps \<le> room_xs \<and> steps \<le> room_vs \<longrightarrow>
            (\<exists>xs vs out.
               integrate_vdp room_xs room_vs junk_xs junk_vs mu dt steps x0 v0 show_progress
                 = Inr (xs, vs, out)))"
proof (intro conjI impI)
  assume a: "integrate_vdp room_xs room_vs junk_xs junk_vs mu dt steps x0 v0 show_progress
    = Inr (xs, vs, out)"
  note r = integrate_vdp_result [OF a]
  show "length xs = nat steps" "length vs = nat steps"
    by (simp_all add: r(2,3))
  show "\<forall>i < nat steps.
      stores (xs ! i) = 1 \<and> stores (vs ! i) = 1 \<and>
      (content (xs ! i), content (vs ! i)) = state_after (vdp_accel mu) dt x0 v0 (Suc i)"
    by (simp add: r(2,3))
next
  assume "0 \<le> steps \<and> steps < 2 ^ 60 \<and> steps \<le> room_xs \<and> steps \<le> room_vs"
  then show "\<exists>xs vs out.
      integrate_vdp room_xs room_vs junk_xs junk_vs mu dt steps x0 v0 show_progress = Inr (xs, vs, out)"
    by (simp add: integrate_vdp_returns)
qed

theorem buffers_fully_written_witness:
  "(0 :: int) \<le> 2 \<and> (2 :: int) < 2 ^ 60 \<and>
   (\<exists>xs vs out.
      integrate_vdp 2 2 (\<lambda>k. NaN) (\<lambda>k. PosInf) (Finite 5404319552844595 (- 52))
        (Finite 5764607523034235 (- 59)) 2 (Finite 3602879701896397 (- 55)) (Finite 0 0) True
        = Inr (xs, vs, out) \<and>
      length xs = 2 \<and> length vs = 2 \<and>
      stores (xs ! 0) = 1 \<and> stores (xs ! 1) = 1 \<and> stores (vs ! 0) = 1 \<and> stores (vs ! 1) = 1)"
proof -
  let ?mu = "Finite 5404319552844595 (- 52)" and ?dt = "Finite 5764607523034235 (- 59)"
    and ?x0 = "Finite 3602879701896397 (- 55)" and ?v0 = "Finite 0 0"
  have h: "(0 :: int) \<le> 2 \<and> (2 :: int) < 2 ^ 60 \<and> (2 :: int) \<le> 2 \<and> (2 :: int) \<le> 2" by simp
  note inst = buffers_fully_written [where steps = 2 and room_xs = 2 and room_vs = 2
      and junk_xs = "\<lambda>k. NaN" and junk_vs = "\<lambda>k. PosInf" and mu = ?mu and dt = ?dt
      and ?x0.0 = ?x0 and ?v0.0 = ?v0 and show_progress = True]
  from inst h obtain xs vs out where run:
    "integrate_vdp 2 2 (\<lambda>k. NaN) (\<lambda>k. PosInf) ?mu ?dt 2 ?x0 ?v0 True = Inr (xs, vs, out)"
    by blast
  with inst have "length xs = nat 2 \<and> length vs = nat 2 \<and>
      (\<forall>i < nat 2. stores (xs ! i) = 1 \<and> stores (vs ! i) = 1 \<and>
         (content (xs ! i), content (vs ! i)) = state_after (vdp_accel ?mu) ?dt ?x0 ?v0 (Suc i))"
    by blast
  then have "length xs = 2 \<and> length vs = 2 \<and>
      stores (xs ! 0) = 1 \<and> stores (xs ! 1) = 1 \<and> stores (vs ! 0) = 1 \<and> stores (vs ! 1) = 1"
    by simp
  with run h show ?thesis by blast
qed

end
